theory Spec2Isabelle
  imports Main "HOL-Library.AList"
begin

section \<open>Python values and exceptions\<close>

text \<open>
  The module \<^verbatim>\<open>gnome_abrt/problems.py\<close> is Python 2 code. Exceptions are values of
  \<open>exn\<close>; a method that can raise returns \<open>exn + 'a\<close> (\<open>Inl\<close> the exception) together
  with the state it leaves behind, since Python keeps every assignment made before the
  raise. All constructors of \<open>exn\<close> stand for subclasses of Python's \<^verbatim>\<open>Exception\<close>;
  \<open>ProviderError\<close> is any other exception of that kind coming out of the provider.
\<close>

datatype exn =
    InvalidProblem | UnavailableSource
  | ValueError | KeyError | TypeError | AttributeError
  | ProviderError

text \<open>The three change kinds, class attributes of \<^verbatim>\<open>ProblemSource\<close>.\<close>

datatype change_type = NEW_PROBLEM | DELETED_PROBLEM | CHANGED_PROBLEM

text \<open>Plain Python values as far as the module looks at them, and their truth value.\<close>

datatype pyval = PyNone | PyBool bool | PyInt int | PyStr string | PyList "pyval list"

fun truthy :: "pyval \<Rightarrow> bool" where
  "truthy PyNone = False"
| "truthy (PyBool b) = b"
| "truthy (PyInt n) = (n \<noteq> 0)"
| "truthy (PyStr s) = (s \<noteq> [])"
| "truthy (PyList xs) = (xs \<noteq> [])"

section \<open>Problem\<close>

text \<open>
  \<^verbatim>\<open>Problem.Submission\<close> and \<^verbatim>\<open>Problem\<close>. The field \<^verbatim>\<open>data\<close> of a submission is
  \<open>sub_data\<close> here (the record \<open>Problem\<close> has a field \<open>data\<close> too). A dict is an
  association list read with \<open>map_of\<close>. \<open>None\<close> in \<open>submission\<close> is Python's
  \<^verbatim>\<open>None\<close>; \<open>app\<close> holds an opaque application handle. The back-reference
  \<^verbatim>\<open>source\<close> is not a field: the functions below take the source as an argument.
\<close>

record Submission =
  title :: string
  rtype :: string
  sub_data :: string

record Problem =
  problem_id :: string
  app :: "nat option"
  submission :: "Submission list option"
  data :: "(string \<times> pyval) list"
  deleted :: bool

text \<open>
  The right operand of \<^verbatim>\<open>==\<close>: a plain value or a \<^verbatim>\<open>Problem\<close> instance. \<^verbatim>\<open>Problem\<close> is
  an old-style class with neither \<^verbatim>\<open>__nonzero__\<close> nor \<^verbatim>\<open>__len__\<close>, so every instance
  is true.
\<close>

datatype pyobj = Plain pyval | Instance Problem

fun truthy_obj :: "pyobj \<Rightarrow> bool" where
  "truthy_obj (Plain v) = truthy v"
| "truthy_obj (Instance p) = True"

text \<open>\<^verbatim>\<open>Problem.__eq__\<close> (lines 86-94).\<close>

definition Problem_eq :: "Problem \<Rightarrow> pyobj \<Rightarrow> exn + bool" where
  "Problem_eq self other =
     (if \<not> truthy_obj other then Inr False
      else (case other of
              Plain (PyStr s) \<Rightarrow> Inr (problem_id self = s)
            | Instance q \<Rightarrow> Inr (problem_id self = problem_id q)
            | _ \<Rightarrow> Inl TypeError))"

section \<open>The trace of outgoing calls\<close>

text \<open>
  What a source does to the outside is recorded in a trace, in call order:
  a \<^verbatim>\<open>logging\<close> call with its level, a call \<^verbatim>\<open>observer.changed(self, change_type, problem)\<close>
  (the observer, the change type and the problem; \<open>None\<close> is Python's \<^verbatim>\<open>None\<close>), the
  calls of the provider's three methods, and a call of \<^verbatim>\<open>drop_cache\<close> on a child of a
  \<^verbatim>\<open>MultipleSources\<close> (the child's position). Observers are named by numbers; their
  \<^verbatim>\<open>changed\<close> is taken to return normally.
\<close>

datatype level = DEBUG | WARNING

datatype event =
    Log level
  | Changed nat "change_type option" "Problem option"
  | ImplGetProblems
  | ImplDeleteProblem string
  | GetItems string "string list"
  | DropCache nat

section \<open>ProblemSource\<close>

text \<open>
  \<^verbatim>\<open>_observers\<close> is a Python set. It is a list without repetition here, in the order
  the set is iterated.
\<close>

record ProblemSource =
  observers :: "nat list"

text \<open>\<^verbatim>\<open>ProblemSource.attach\<close> (lines 44-46).\<close>

definition ProblemSource_attach ::
  "nat \<Rightarrow> 'a ProblemSource_scheme \<Rightarrow> 'a ProblemSource_scheme" where
  "ProblemSource_attach observer self =
     (if observer \<notin> set (observers self)
      then self\<lparr>observers := observers self @ [observer]\<rparr>
      else self)"

text \<open>\<^verbatim>\<open>set.remove\<close>: removes the element, \<^verbatim>\<open>KeyError\<close> when it is not a member.\<close>

definition set_remove :: "nat \<Rightarrow> nat list \<Rightarrow> exn + nat list" where
  "set_remove x s = (if x \<in> set s then Inr (removeAll x s) else Inl KeyError)"

text \<open>
  \<^verbatim>\<open>ProblemSource.detach\<close> (lines 48-52): the handler takes \<^verbatim>\<open>ValueError\<close> only; any
  other exception leaves the method.
\<close>

definition ProblemSource_detach ::
  "nat \<Rightarrow> 'a ProblemSource_scheme \<Rightarrow> event list
     \<Rightarrow> (exn + unit) \<times> 'a ProblemSource_scheme \<times> event list" where
  "ProblemSource_detach observer self tr =
     (case set_remove observer (observers self) of
        Inr s \<Rightarrow> (Inr (), self\<lparr>observers := s\<rparr>, tr)
      | Inl e \<Rightarrow>
          (if e = ValueError then (Inr (), self, tr @ [Log DEBUG])
           else (Inl e, self, tr)))"

text \<open>
  \<^verbatim>\<open>ProblemSource.notify\<close> (lines 54-57): one debug line, then \<^verbatim>\<open>changed\<close> on every
  observer.
\<close>

definition ProblemSource_notify ::
  "'a ProblemSource_scheme \<Rightarrow> change_type option \<Rightarrow> Problem option
     \<Rightarrow> event list \<Rightarrow> event list" where
  "ProblemSource_notify self ct p tr =
     tr @ [Log DEBUG] @ map (\<lambda>observer. Changed observer ct p) (observers self)"

section \<open>The provider\<close>

text \<open>
  The methods a concrete source supplies (section 6 of the specification): they are
  not in this module, so they are arguments. \<open>impl_get_problems\<close> answers with the ids,
  \<open>impl_delete_problem\<close> with a value read for its truth, \<open>get_items\<close> with a dict; each
  may raise instead.
\<close>

record Provider =
  impl_get_problems :: "exn + string list"
  impl_delete_problem :: "string \<Rightarrow> exn + pyval"
  get_items :: "string \<Rightarrow> string list \<Rightarrow> exn + (string \<times> pyval) list"

section \<open>Problem: field access and the submission list\<close>









section \<open>Problem: construction\<close>

text \<open>
  \<^verbatim>\<open>Problem.__init__\<close> with \<^verbatim>\<open>_get_initial_data\<close> (lines 75-81 and 129-134): the four
  initial fields come from the source's \<^verbatim>\<open>get_items\<close>, whose exception leaves the
  constructor.
\<close>

definition Problem_init :: "Provider \<Rightarrow> string \<Rightarrow> event list \<Rightarrow> (exn + Problem) \<times> event list" where
  "Problem_init source pid tr =
     (case get_items source pid [''component'', ''executable'', ''time'', ''reason''] of
        Inl e \<Rightarrow>
          (Inl e, tr @ [GetItems pid [''component'', ''executable'', ''time'', ''reason'']])
      | Inr d \<Rightarrow>
          (Inr \<lparr>problem_id = pid, app = None, submission = None, data = d, deleted = False\<rparr>,
           tr @ [GetItems pid [''component'', ''executable'', ''time'', ''reason'']]))"

section \<open>CachedSource\<close>

text \<open>
  \<^verbatim>\<open>CachedSource\<close> extends \<^verbatim>\<open>ProblemSource\<close> by \<^verbatim>\<open>_cache\<close>: \<open>None\<close> is Python's
  \<^verbatim>\<open>None\<close>. The cache holds the problems by value.
\<close>

record CachedSource = ProblemSource +
  cache :: "Problem list option"

text \<open>\<^verbatim>\<open>CachedSource.__init__\<close> (lines 257-260).\<close>

definition CachedSource_init :: CachedSource where
  "CachedSource_init = \<lparr>observers = [], cache = None\<rparr>"

text \<open>\<^verbatim>\<open>CachedSource.create_new_problem\<close> (lines 301-302).\<close>

definition CachedSource_create_new_problem ::
  "Provider \<Rightarrow> string \<Rightarrow> event list \<Rightarrow> (exn + Problem) \<times> event list" where
  "CachedSource_create_new_problem source pid tr = Problem_init source pid tr"

text \<open>
  The loop of \<^verbatim>\<open>get_problems\<close> (lines 265-271) over the ids still to come, with the
  cache built so far. The two handled exceptions are logged and the loop goes on; any
  other exception ends it.
\<close>

fun populate ::
  "Provider \<Rightarrow> string list \<Rightarrow> Problem list \<Rightarrow> event list
     \<Rightarrow> exn option \<times> Problem list \<times> event list" where
  "populate source [] c tr = (None, c, tr)"
| "populate source (prblmid # ids) c tr =
     (case CachedSource_create_new_problem source prblmid tr of
        (Inr p, tr') \<Rightarrow> populate source ids (c @ [p]) tr'
      | (Inl e, tr') \<Rightarrow>
          (if e = InvalidProblem \<or> e = UnavailableSource
           then populate source ids c (tr' @ [Log WARNING])
           else (Some e, c, tr')))"

text \<open>
  \<^verbatim>\<open>CachedSource.get_problems\<close> (lines 262-273). \<^verbatim>\<open>not self._cache\<close> holds for
  \<^verbatim>\<open>None\<close> and for the empty list.
\<close>

definition CachedSource_get_problems ::
  "Provider \<Rightarrow> CachedSource \<Rightarrow> event list
     \<Rightarrow> (exn + Problem list) \<times> CachedSource \<times> event list" where
  "CachedSource_get_problems source self tr =
     (case cache self of
        Some (c # cs) \<Rightarrow> (Inr (c # cs), self, tr)
      | _ \<Rightarrow>
          (case impl_get_problems source of
             Inl e \<Rightarrow> (Inl e, self\<lparr>cache := Some []\<rparr>, tr @ [ImplGetProblems])
           | Inr ids \<Rightarrow>
               (case populate source ids [] (tr @ [ImplGetProblems]) of
                  (Some e, c, tr') \<Rightarrow> (Inl e, self\<lparr>cache := Some c\<rparr>, tr')
                | (None, c, tr') \<Rightarrow> (Inr c, self\<lparr>cache := Some c\<rparr>, tr'))))"

text \<open>\<^verbatim>\<open>CachedSource.drop_cache\<close> (lines 275-277).\<close>

definition CachedSource_drop_cache ::
  "CachedSource \<Rightarrow> event list \<Rightarrow> CachedSource \<times> event list" where
  "CachedSource_drop_cache self tr =
     (self\<lparr>cache := None\<rparr>, ProblemSource_notify (self\<lparr>cache := None\<rparr>) None None tr)"

text \<open>
  The list operations of Python on a list of problems. \<^verbatim>\<open>x in xs\<close> compares
  \<^verbatim>\<open>x == item\<close> with \<open>x\<close> on the left; \<^verbatim>\<open>xs.index(v)\<close> and \<^verbatim>\<open>xs.remove(v)\<close> compare
  \<^verbatim>\<open>item == v\<close> with the item on the left and raise \<^verbatim>\<open>ValueError\<close> when no item is
  equal. Each comparison is \<^verbatim>\<open>Problem.__eq__\<close>, whose exception leaves the operation.
\<close>

fun list_contains :: "Problem \<Rightarrow> Problem list \<Rightarrow> exn + bool" where
  "list_contains x [] = Inr False"
| "list_contains x (y # ys) =
     (case Problem_eq x (Instance y) of
        Inl e \<Rightarrow> Inl e
      | Inr b \<Rightarrow> (if b then Inr True else list_contains x ys))"

fun list_index :: "Problem list \<Rightarrow> pyobj \<Rightarrow> exn + nat" where
  "list_index [] v = Inl ValueError"
| "list_index (x # xs) v =
     (case Problem_eq x v of
        Inl e \<Rightarrow> Inl e
      | Inr b \<Rightarrow>
          (if b then Inr 0
           else (case list_index xs v of Inl e \<Rightarrow> Inl e | Inr i \<Rightarrow> Inr (Suc i))))"

fun list_remove :: "Problem list \<Rightarrow> pyobj \<Rightarrow> exn + Problem list" where
  "list_remove [] v = Inl ValueError"
| "list_remove (x # xs) v =
     (case Problem_eq x v of
        Inl e \<Rightarrow> Inl e
      | Inr b \<Rightarrow>
          (if b then Inr xs
           else (case list_remove xs v of Inl e \<Rightarrow> Inl e | Inr ys \<Rightarrow> Inr (x # ys))))"

text \<open>
  \<^verbatim>\<open>CachedSource._insert_to_cache\<close> (lines 279-284). \<^verbatim>\<open>if self._cache\<close> holds for a
  list that is not empty.
\<close>

definition CachedSource_insert_to_cache ::
  "Problem \<Rightarrow> CachedSource \<Rightarrow> (exn + unit) \<times> CachedSource" where
  "CachedSource_insert_to_cache problem self =
     (case cache self of
        Some (c # cs) \<Rightarrow>
          (case list_contains problem (c # cs) of
             Inl e \<Rightarrow> (Inl e, self)
           | Inr found \<Rightarrow>
               (if found then (Inl InvalidProblem, self)
                else (Inr (), self\<lparr>cache := Some ((c # cs) @ [problem])\<rparr>)))
      | _ \<Rightarrow> (Inr (), self))"

text \<open>
  The handler of \<^verbatim>\<open>delete_problem\<close> (lines 295-297) followed by line 299, for an
  exception raised in the \<^verbatim>\<open>try\<close> block: \<^verbatim>\<open>ValueError\<close> is logged, the cache is
  reset and a notification without arguments goes out; any other exception leaves
  the method.
\<close>

definition delete_problem_except ::
  "exn \<Rightarrow> CachedSource \<Rightarrow> event list \<Rightarrow> (exn + unit) \<times> CachedSource \<times> event list" where
  "delete_problem_except e self tr =
     (if e = ValueError
      then (Inr (), self\<lparr>cache := None\<rparr>,
            ProblemSource_notify (self\<lparr>cache := None\<rparr>) None None (tr @ [Log WARNING]))
      else (Inl e, self, tr))"

text \<open>
  \<^verbatim>\<open>CachedSource.delete_problem\<close> (lines 286-299). On an unloaded cache
  \<^verbatim>\<open>self._cache.index\<close> is an attribute of \<^verbatim>\<open>None\<close>: \<^verbatim>\<open>AttributeError\<close>.
\<close>

definition CachedSource_delete_problem ::
  "Provider \<Rightarrow> string \<Rightarrow> CachedSource \<Rightarrow> event list
     \<Rightarrow> (exn + unit) \<times> CachedSource \<times> event list" where
  "CachedSource_delete_problem source pid self tr =
     (case impl_delete_problem source pid of
        Inl e \<Rightarrow> (Inl e, self, tr @ [ImplDeleteProblem pid])
      | Inr ok \<Rightarrow>
          (if \<not> truthy ok then (Inr (), self, tr @ [ImplDeleteProblem pid])
           else (case cache self of
                   None \<Rightarrow>
                     delete_problem_except AttributeError self (tr @ [ImplDeleteProblem pid])
                 | Some c \<Rightarrow>
                     (case list_index c (Plain (PyStr pid)) of
                        Inl e \<Rightarrow> delete_problem_except e self (tr @ [ImplDeleteProblem pid])
                      | Inr i \<Rightarrow>
                          (case list_remove c (Plain (PyStr pid)) of
                             Inl e \<Rightarrow>
                               delete_problem_except e self (tr @ [ImplDeleteProblem pid])
                           | Inr c' \<Rightarrow>
                               (Inr (), self\<lparr>cache := Some c'\<rparr>,
                                ProblemSource_notify (self\<lparr>cache := Some c'\<rparr>)
                                  (Some DELETED_PROBLEM) (Some (c ! i))
                                  (tr @ [ImplDeleteProblem pid])))))))"

text \<open>
  The two handlers of \<^verbatim>\<open>process_new_problem_id\<close> (lines 309-312): both log a warning;
  any other exception leaves the method.
\<close>

definition process_new_problem_id_except ::
  "exn \<Rightarrow> CachedSource \<Rightarrow> event list \<Rightarrow> (exn + unit) \<times> CachedSource \<times> event list" where
  "process_new_problem_id_except e self tr =
     (if e = InvalidProblem \<or> e = UnavailableSource
      then (Inr (), self, tr @ [Log WARNING])
      else (Inl e, self, tr))"

text \<open>\<^verbatim>\<open>CachedSource.process_new_problem_id\<close> (lines 304-312).\<close>

definition CachedSource_process_new_problem_id ::
  "Provider \<Rightarrow> string \<Rightarrow> CachedSource \<Rightarrow> event list
     \<Rightarrow> (exn + unit) \<times> CachedSource \<times> event list" where
  "CachedSource_process_new_problem_id source pid self tr =
     (case CachedSource_create_new_problem source pid tr of
        (Inl e, tr1) \<Rightarrow> process_new_problem_id_except e self tr1
      | (Inr p, tr1) \<Rightarrow>
          (case CachedSource_insert_to_cache p self of
             (Inl e, self1) \<Rightarrow> process_new_problem_id_except e self1 tr1
           | (Inr u, self1) \<Rightarrow>
               (Inr (), self1, ProblemSource_notify self1 (Some NEW_PROBLEM) (Some p) tr1)))"

section \<open>CachedSource: calls in sequence\<close>

text \<open>
  What the loop of \<^verbatim>\<open>get_problems\<close> makes of one id, read off
  \<^verbatim>\<open>create_new_problem\<close>: whether the loop goes on after it (the problem is
  constructed, or one of the two handled exceptions is raised), the problems it adds
  to the cache (one or none), and the calls it leaves in the trace.
\<close>

definition constructible :: "Provider \<Rightarrow> string \<Rightarrow> bool" where
  "constructible source prblmid =
     (case fst (CachedSource_create_new_problem source prblmid []) of
        Inr p \<Rightarrow> True
      | Inl e \<Rightarrow> e = InvalidProblem \<or> e = UnavailableSource)"

definition constructed :: "Provider \<Rightarrow> string \<Rightarrow> Problem list" where
  "constructed source prblmid =
     (case fst (CachedSource_create_new_problem source prblmid []) of
        Inr p \<Rightarrow> [p]
      | Inl e \<Rightarrow> [])"

definition construction_calls :: "Provider \<Rightarrow> string \<Rightarrow> event list" where
  "construction_calls source prblmid =
     snd (CachedSource_create_new_problem source prblmid [])
       @ (case fst (CachedSource_create_new_problem source prblmid []) of
            Inr p \<Rightarrow> []
          | Inl e \<Rightarrow> [Log WARNING])"

text \<open>
  A call of one of the methods that a \<^verbatim>\<open>CachedSource\<close> has or inherits and that
  touch its state or its observers, and what the call leaves behind: the source and
  the trace. A call that raises leaves the state it had reached.
\<close>

datatype call =
    Get_problems
  | Delete_problem string
  | Process_new_problem_id string
  | Insert_to_cache Problem
  | Attach nat
  | Detach nat
  | Notify "change_type option" "Problem option"
  | Drop_cache

definition CachedSource_call ::
  "Provider \<Rightarrow> call \<Rightarrow> CachedSource \<times> event list \<Rightarrow> CachedSource \<times> event list" where
  "CachedSource_call source c st =
     (case c of
        Get_problems \<Rightarrow> snd (CachedSource_get_problems source (fst st) (snd st))
      | Delete_problem pid \<Rightarrow> snd (CachedSource_delete_problem source pid (fst st) (snd st))
      | Process_new_problem_id pid \<Rightarrow>
          snd (CachedSource_process_new_problem_id source pid (fst st) (snd st))
      | Insert_to_cache p \<Rightarrow> (snd (CachedSource_insert_to_cache p (fst st)), snd st)
      | Attach observer \<Rightarrow> (ProblemSource_attach observer (fst st), snd st)
      | Detach observer \<Rightarrow> snd (ProblemSource_detach observer (fst st) (snd st))
      | Notify ct p \<Rightarrow> (fst st, ProblemSource_notify (fst st) ct p (snd st))
      | Drop_cache \<Rightarrow> CachedSource_drop_cache (fst st) (snd st))"

text \<open>
  The calls that unset a loaded cache: \<^verbatim>\<open>drop_cache\<close>, and a \<^verbatim>\<open>delete_problem\<close>
  that the provider accepts for an id that the lookup in the cache does not find (the
  id is not there, or is empty).
\<close>

definition unsets_cache :: "Provider \<Rightarrow> CachedSource \<Rightarrow> call \<Rightarrow> bool" where
  "unsets_cache source self c =
     (case c of
        Drop_cache \<Rightarrow> True
      | Delete_problem pid \<Rightarrow>
          (case impl_delete_problem source pid of
             Inl e \<Rightarrow> False
           | Inr ok \<Rightarrow>
               truthy ok \<and>
               (case cache self of
                  None \<Rightarrow> False
                | Some xs \<Rightarrow> pid = [] \<or> pid \<notin> problem_id ` set xs))
      | _ \<Rightarrow> False)"

text \<open>No call of the sequence, made in the state it meets, is one of those.\<close>

fun none_unsets_cache ::
  "Provider \<Rightarrow> call list \<Rightarrow> CachedSource \<times> event list \<Rightarrow> bool" where
  "none_unsets_cache source [] st = True"
| "none_unsets_cache source (c # cs) st =
     (\<not> unsets_cache source (fst st) c
      \<and> none_unsets_cache source cs (CachedSource_call source c st))"

section \<open>Problem: deletion\<close>

text \<open>
  \<^verbatim>\<open>Problem.delete\<close> writes to a \<^verbatim>\<open>Problem\<close> object that the cache of its source may
  hold: a Python list holds references, so the entry of the cache and the problem
  handed to the observers are that same object. For this method the objects live in a
  store, a function from addresses to the values of the objects, and the cache is a
  list of addresses.
\<close>

type_synonym store = "nat \<Rightarrow> Problem"

record CachedSource_refs = ProblemSource +
  cache_refs :: "nat list option"

text \<open>The source of the sections above, read off the store.\<close>

definition CachedSource_of :: "store \<Rightarrow> CachedSource_refs \<Rightarrow> CachedSource" where
  "CachedSource_of h self =
     \<lparr>observers = observers self, cache = map_option (map h) (cache_refs self)\<rparr>"

text \<open>
  \<^verbatim>\<open>xs.index(v)\<close> and \<^verbatim>\<open>xs.remove(v)\<close> on a list of references: each item is
  compared by \<^verbatim>\<open>Problem.__eq__\<close> of the object it refers to.
\<close>

fun refs_index :: "store \<Rightarrow> nat list \<Rightarrow> pyobj \<Rightarrow> exn + nat" where
  "refs_index h [] v = Inl ValueError"
| "refs_index h (x # xs) v =
     (case Problem_eq (h x) v of
        Inl e \<Rightarrow> Inl e
      | Inr b \<Rightarrow>
          (if b then Inr 0
           else (case refs_index h xs v of Inl e \<Rightarrow> Inl e | Inr i \<Rightarrow> Inr (Suc i))))"

fun refs_remove :: "store \<Rightarrow> nat list \<Rightarrow> pyobj \<Rightarrow> exn + nat list" where
  "refs_remove h [] v = Inl ValueError"
| "refs_remove h (x # xs) v =
     (case Problem_eq (h x) v of
        Inl e \<Rightarrow> Inl e
      | Inr b \<Rightarrow>
          (if b then Inr xs
           else (case refs_remove h xs v of Inl e \<Rightarrow> Inl e | Inr ys \<Rightarrow> Inr (x # ys))))"

text \<open>
  \<^verbatim>\<open>CachedSource.delete_problem\<close> (lines 286-299) and its handler once more, on a
  cache of references. The store is read, not written; the notification carries the
  object found, as it is in the store at that moment.
\<close>

definition delete_problem_except_refs ::
  "exn \<Rightarrow> CachedSource_refs \<Rightarrow> event list
     \<Rightarrow> (exn + unit) \<times> CachedSource_refs \<times> event list" where
  "delete_problem_except_refs e self tr =
     (if e = ValueError
      then (Inr (), self\<lparr>cache_refs := None\<rparr>,
            ProblemSource_notify (self\<lparr>cache_refs := None\<rparr>) None None (tr @ [Log WARNING]))
      else (Inl e, self, tr))"

definition CachedSource_delete_problem_refs ::
  "Provider \<Rightarrow> string \<Rightarrow> store \<Rightarrow> CachedSource_refs \<Rightarrow> event list
     \<Rightarrow> (exn + unit) \<times> CachedSource_refs \<times> event list" where
  "CachedSource_delete_problem_refs source pid h self tr =
     (case impl_delete_problem source pid of
        Inl e \<Rightarrow> (Inl e, self, tr @ [ImplDeleteProblem pid])
      | Inr ok \<Rightarrow>
          (if \<not> truthy ok then (Inr (), self, tr @ [ImplDeleteProblem pid])
           else (case cache_refs self of
                   None \<Rightarrow>
                     delete_problem_except_refs AttributeError self
                       (tr @ [ImplDeleteProblem pid])
                 | Some c \<Rightarrow>
                     (case refs_index h c (Plain (PyStr pid)) of
                        Inl e \<Rightarrow>
                          delete_problem_except_refs e self (tr @ [ImplDeleteProblem pid])
                      | Inr i \<Rightarrow>
                          (case refs_remove h c (Plain (PyStr pid)) of
                             Inl e \<Rightarrow>
                               delete_problem_except_refs e self
                                 (tr @ [ImplDeleteProblem pid])
                           | Inr c' \<Rightarrow>
                               (Inr (), self\<lparr>cache_refs := Some c'\<rparr>,
                                ProblemSource_notify (self\<lparr>cache_refs := Some c'\<rparr>)
                                  (Some DELETED_PROBLEM) (Some (h (c ! i)))
                                  (tr @ [ImplDeleteProblem pid])))))))"


section \<open>MultipleSources\<close>

text \<open>
  A child of a \<^verbatim>\<open>MultipleSources\<close> is any \<^verbatim>\<open>ProblemSource\<close>; its \<^verbatim>\<open>drop_cache\<close> is
  whatever its class defines. A child is given by what that call does: the
  notifications it sends to its observers while it runs (the change type and the
  problem of each), and the exception it ends with, if any. The
  \<^verbatim>\<open>drop_cache\<close> of a \<^verbatim>\<open>CachedSource\<close> sends one notification without arguments and
  returns; that of the base class sends none.
\<close>

record Child =
  child_notifies :: "(change_type option \<times> Problem option) list"
  child_raises :: "exn option"

record MultipleSources = ProblemSource +
  sources :: "Child list"
  disable_notify :: bool

text \<open>
  \<^verbatim>\<open>MultipleSources.__init__\<close> (lines 204-223). Attaching the inner observer to the
  children changes the children only: from then on each notification of a child calls
  \<^verbatim>\<open>SourceObserver.changed\<close>.
\<close>

definition MultipleSources_init :: "Child list \<Rightarrow> exn + MultipleSources" where
  "MultipleSources_init args =
     (if length args = 0 then Inl ValueError
      else Inr \<lparr>observers = [], sources = args, disable_notify = False\<rparr>)"

text \<open>\<^verbatim>\<open>MultipleSources.notify\<close> (lines 238-242).\<close>

definition MultipleSources_notify ::
  "MultipleSources \<Rightarrow> change_type option \<Rightarrow> Problem option \<Rightarrow> event list \<Rightarrow> event list" where
  "MultipleSources_notify self ct p tr =
     (if disable_notify self then tr else ProblemSource_notify self ct p tr)"

text \<open>\<^verbatim>\<open>SourceObserver.changed\<close> (lines 216-217).\<close>

definition SourceObserver_changed ::
  "MultipleSources \<Rightarrow> change_type option \<Rightarrow> Problem option \<Rightarrow> event list \<Rightarrow> event list" where
  "SourceObserver_changed parent ct p tr = MultipleSources_notify parent ct p tr"

text \<open>
  The call \<^verbatim>\<open>s.drop_cache()\<close> on the child at position \<open>n\<close>: each of its notifications
  reaches the inner observer of the parent.
\<close>

definition Child_drop_cache ::
  "MultipleSources \<Rightarrow> nat \<Rightarrow> Child \<Rightarrow> event list \<Rightarrow> exn option \<times> event list" where
  "Child_drop_cache parent n s tr =
     (child_raises s,
      fold (\<lambda>(ct, p). SourceObserver_changed parent ct p) (child_notifies s)
        (tr @ [DropCache n]))"

text \<open>The loop of \<^verbatim>\<open>drop_cache\<close> (lines 248-249); an exception ends it.\<close>

fun drop_sources ::
  "MultipleSources \<Rightarrow> nat \<Rightarrow> Child list \<Rightarrow> event list \<Rightarrow> exn option \<times> event list" where
  "drop_sources parent n [] tr = (None, tr)"
| "drop_sources parent n (s # ss) tr =
     (case Child_drop_cache parent n s tr of
        (Some e, tr') \<Rightarrow> (Some e, tr')
      | (None, tr') \<Rightarrow> drop_sources parent (Suc n) ss tr')"

text \<open>
  \<^verbatim>\<open>MultipleSources.drop_cache\<close> (lines 244-253): the \<^verbatim>\<open>finally\<close> clause clears the
  flag on both ways out of the loop; the last line is reached only when the loop
  ended without an exception.
\<close>

definition MultipleSources_drop_cache ::
  "MultipleSources \<Rightarrow> event list \<Rightarrow> (exn + unit) \<times> MultipleSources \<times> event list" where
  "MultipleSources_drop_cache self tr =
     (case drop_sources (self\<lparr>disable_notify := True\<rparr>) 0 (sources self) tr of
        (Some e, tr') \<Rightarrow> (Inl e, self\<lparr>disable_notify := False\<rparr>, tr')
      | (None, tr') \<Rightarrow>
          (Inr (), self\<lparr>disable_notify := False\<rparr>,
           MultipleSources_notify (self\<lparr>disable_notify := False\<rparr>) None None tr'))"

section \<open>Example data\<close>

text \<open>
  A problem with no data, and a provider: it lists no problem, refuses to delete
  \<^verbatim>\<open>kept\<close>, fails on deleting \<^verbatim>\<open>broken\<close>, finds \<^verbatim>\<open>invalid\<close> invalid, and knows
  one field, \<^verbatim>\<open>reported_to\<close>.
\<close>

abbreviation example_problem :: "string \<Rightarrow> Problem" where
  "example_problem pid \<equiv>
     \<lparr>problem_id = pid, app = None, submission = None, data = [], deleted = False\<rparr>"

abbreviation example_provider :: Provider where
  "example_provider \<equiv>
     \<lparr>impl_get_problems = Inr [],
      impl_delete_problem =
        (\<lambda>pid. if pid = ''kept'' then Inr (PyBool False)
               else if pid = ''broken'' then Inl ProviderError
               else Inr (PyBool True)),
      get_items =
        (\<lambda>pid args. if pid = ''invalid'' then Inl InvalidProblem
                    else if args = [''reported_to'']
                    then Inr [(''reported_to'', PyStr ''Bugzilla: URL=http://example.com/?id=1'')]
                    else Inr [])\<rparr>"


section \<open>Theorems\<close>

subsection \<open>Problem equality\<close>

text \<open>
  C10, as the code has it. Two problems are equal exactly when their ids are equal. A
  problem equals a non-empty string exactly when its id is that string. Compared with
  a false value (\<^verbatim>\<open>None\<close>, the empty string, \<^verbatim>\<open>0\<close>, ...) the answer is \<^verbatim>\<open>False\<close> and
  nothing is raised. Compared with a true value that is neither a string nor a
  problem, \<^verbatim>\<open>TypeError\<close> is raised.
\<close>

theorem Problem_eq_by_id:
  "Problem_eq p (Instance q) = Inr (problem_id p = problem_id q)
   \<and> (s \<noteq> [] \<longrightarrow> Problem_eq p (Plain (PyStr s)) = Inr (problem_id p = s))
   \<and> (\<not> truthy_obj v \<longrightarrow> Problem_eq p v = Inr False)
   \<and> (truthy w \<and> (\<forall>t. w \<noteq> PyStr t) \<longrightarrow> Problem_eq p (Plain w) = Inl TypeError)"
  by (cases w) (simp_all add: Problem_eq_def)

theorem Problem_eq_by_id_witness:
  "Problem_eq (example_problem ''a'') (Instance ((example_problem ''b'')\<lparr>deleted := True\<rparr>))
     = Inr False
   \<and> Problem_eq (example_problem ''a'') (Plain (PyStr ''a'')) = Inr True
   \<and> Problem_eq (example_problem ''a'') (Plain PyNone) = Inr False
   \<and> Problem_eq (example_problem ''a'') (Plain (PyInt 7)) = Inl TypeError"
  using Problem_eq_by_id
    [of "example_problem ''a''" "(example_problem ''b'')\<lparr>deleted := True\<rparr>"
        "''a''" "Plain PyNone" "PyInt 7"]
  by simp

text \<open>
  The claim's second part taken for every string fails at the empty string: a problem
  whose id is empty does not equal the empty string.
\<close>

theorem Problem_eq_empty_string_counterexample:
  "problem_id (example_problem []) = []
   \<and> Problem_eq (example_problem []) (Plain (PyStr [])) = Inr False"
  by (simp add: Problem_eq_def)

subsection \<open>Observers\<close>

text \<open>Attaching an observer that is attached already changes nothing.\<close>

lemma attach_idempotent:
  "ProblemSource_attach observer (ProblemSource_attach observer self)
     = ProblemSource_attach observer self"
  by (simp add: ProblemSource_attach_def)

text \<open>
  C3, at the failing input. On a source without observers, \<^verbatim>\<open>detach\<close> raises
  \<^verbatim>\<open>KeyError\<close>: nothing is logged, and the exception leaves the method.
\<close>

theorem ProblemSource_detach_unregistered_raises:
  "ProblemSource_detach 0 \<lparr>observers = []\<rparr> [] = (Inl KeyError, \<lparr>observers = []\<rparr>, [])"
  by (simp add: ProblemSource_detach_def set_remove_def)

subsection \<open>Parsing the submission list\<close>













subsection \<open>Lookups in the cache\<close>

text \<open>
  Membership of a problem is membership of its id. A lookup by an id string finds the
  first problem with that id, unless the string is empty: then every comparison
  answers \<^verbatim>\<open>False\<close>.
\<close>

lemma list_contains_ids:
  "list_contains x ys = Inr (problem_id x \<in> problem_id ` set ys)"
  by (induction ys) (auto simp add: Problem_eq_def)

lemma list_index_absent:
  "pid \<notin> problem_id ` set c \<or> pid = [] \<Longrightarrow> list_index c (Plain (PyStr pid)) = Inl ValueError"
  by (induction c) (auto simp add: Problem_eq_def)

lemma list_index_present:
  "pid \<noteq> [] \<Longrightarrow> pid \<notin> problem_id ` set pre \<Longrightarrow> problem_id p = pid \<Longrightarrow>
   list_index (pre @ p # post) (Plain (PyStr pid)) = Inr (length pre)"
  by (induction pre) (auto simp add: Problem_eq_def)

lemma list_remove_present:
  "pid \<noteq> [] \<Longrightarrow> pid \<notin> problem_id ` set pre \<Longrightarrow> problem_id p = pid \<Longrightarrow>
   list_remove (pre @ p # post) (Plain (PyStr pid)) = Inr (pre @ post)"
  by (induction pre) (auto simp add: Problem_eq_def)

subsection \<open>The cache of get_problems\<close>

lemma populate_trace_grows:
  "\<exists>more. snd (snd (populate source ids c tr)) = tr @ more"
proof (induction ids arbitrary: c tr)
  case Nil
  show ?case by simp
next
  case (Cons i ids)
  show ?case
  proof (cases "get_items source i [''component'', ''executable'', ''time'', ''reason'']")
    case (Inl e)
    show ?thesis
    proof (cases "e = InvalidProblem \<or> e = UnavailableSource")
      case True
      obtain more where
        "snd (snd (populate source ids c
           ((tr @ [GetItems i [''component'', ''executable'', ''time'', ''reason'']])
              @ [Log WARNING])))
         = ((tr @ [GetItems i [''component'', ''executable'', ''time'', ''reason'']])
              @ [Log WARNING]) @ more"
        using Cons.IH by blast
      with Inl True show ?thesis
        by (simp add: CachedSource_create_new_problem_def Problem_init_def)
    next
      case False
      with Inl show ?thesis
        by (simp add: CachedSource_create_new_problem_def Problem_init_def)
    qed
  next
    case (Inr d)
    obtain more where
      "snd (snd (populate source ids
          (c @ [\<lparr>problem_id = i, app = None, submission = None, data = d, deleted = False\<rparr>])
          (tr @ [GetItems i [''component'', ''executable'', ''time'', ''reason'']])))
       = (tr @ [GetItems i [''component'', ''executable'', ''time'', ''reason'']]) @ more"
      using Cons.IH by blast
    with Inr show ?thesis
      by (simp add: CachedSource_create_new_problem_def Problem_init_def)
  qed
qed

lemma get_problems_asks_provider:
  assumes "cache self = None \<or> cache self = Some []"
  shows "\<exists>more. snd (snd (CachedSource_get_problems source self tr))
                  = tr @ ImplGetProblems # more"
proof (cases "impl_get_problems source")
  case (Inl e)
  with assms show ?thesis by (auto simp add: CachedSource_get_problems_def)
next
  case (Inr ids)
  obtain more where m: "snd (snd (populate source ids [] (tr @ [ImplGetProblems])))
      = (tr @ [ImplGetProblems]) @ more"
    using populate_trace_grows by blast
  obtain r c tr' where p: "populate source ids [] (tr @ [ImplGetProblems]) = (r, c, tr')"
    by (cases "populate source ids [] (tr @ [ImplGetProblems])") auto
  with m have "tr' = tr @ ImplGetProblems # more" by simp
  with assms Inr p show ?thesis
    by (cases r) (auto simp add: CachedSource_get_problems_def)
qed

lemma get_problems_cache_loaded:
  "cache (fst (snd (CachedSource_get_problems source self tr))) \<noteq> None"
  by (auto simp add: CachedSource_get_problems_def
      split: option.splits list.splits sum.splits prod.splits)

lemma create_new_problem_trace:
  "CachedSource_create_new_problem source i tr
     = (fst (CachedSource_create_new_problem source i []),
        tr @ snd (CachedSource_create_new_problem source i []))"
  by (simp add: CachedSource_create_new_problem_def Problem_init_def split: sum.splits)

lemma populate_exact:
  "list_all (constructible source) ids \<Longrightarrow>
   populate source ids c tr =
     (None, c @ concat (map (constructed source) ids),
      tr @ concat (map (construction_calls source) ids))"
proof (induction ids arbitrary: c tr)
  case Nil
  show ?case by simp
next
  case (Cons i ids)
  from Cons.prems have i: "constructible source i" and rest: "list_all (constructible source) ids"
    by simp_all
  obtain r t where rt: "CachedSource_create_new_problem source i [] = (r, t)"
    by (cases "CachedSource_create_new_problem source i []")
  then have here: "CachedSource_create_new_problem source i tr = (r, tr @ t)"
    using create_new_problem_trace [of source i tr] by simp
  show ?case
  proof (cases r)
    case (Inr p)
    with here rt show ?thesis
      by (simp add: Cons.IH [OF rest] constructed_def construction_calls_def)
  next
    case (Inl e)
    with i rt have "e = InvalidProblem \<or> e = UnavailableSource"
      by (simp add: constructible_def)
    with Inl here rt show ?thesis
      by (simp add: Cons.IH [OF rest] constructed_def construction_calls_def)
  qed
qed

lemma get_problems_repopulates:
  assumes "cache self = None \<or> cache self = Some []"
    and "impl_get_problems source = Inr ids" and "list_all (constructible source) ids"
  shows "CachedSource_get_problems source self tr =
     (Inr (concat (map (constructed source) ids)),
      self\<lparr>cache := Some (concat (map (constructed source) ids))\<rparr>,
      tr @ ImplGetProblems # concat (map (construction_calls source) ids))"
  using assms(1,2) populate_exact [OF assms(3), of "[]" "tr @ [ImplGetProblems]"]
  by (auto simp add: CachedSource_get_problems_def)

lemma first_with_id:
  "pid \<in> problem_id ` set xs \<Longrightarrow>
   \<exists>pre p post. xs = pre @ p # post \<and> problem_id p = pid \<and> pid \<notin> problem_id ` set pre"
proof (induction xs)
  case Nil
  then show ?case by simp
next
  case (Cons x xs)
  show ?case
  proof (cases "problem_id x = pid")
    case True
    then have "x # xs = [] @ x # xs \<and> problem_id x = pid \<and> pid \<notin> problem_id ` set []"
      by simp
    then show ?thesis by blast
  next
    case False
    with Cons.prems have "pid \<in> problem_id ` set xs" by auto
    then obtain pre p post where
      "xs = pre @ p # post" "problem_id p = pid" "pid \<notin> problem_id ` set pre"
      using Cons.IH by blast
    with False have "x # xs = (x # pre) @ p # post \<and> problem_id p = pid
        \<and> pid \<notin> problem_id ` set (x # pre)"
      by auto
    then show ?thesis by blast
  qed
qed

lemma delete_problem_found_keeps_cache:
  assumes "cache self = Some xs" and "pid \<noteq> []" and "pid \<in> problem_id ` set xs"
  shows "cache (fst (snd (CachedSource_delete_problem source pid self tr))) \<noteq> None"
proof -
  obtain pre p post where
    xs: "xs = pre @ p # post" "problem_id p = pid" "pid \<notin> problem_id ` set pre"
    using first_with_id [OF assms(3)] by blast
  show ?thesis
    using assms(1,2) xs
    by (auto simp add: CachedSource_delete_problem_def list_index_present list_remove_present
        split: sum.splits)
qed

lemma call_keeps_cache:
  assumes "cache (fst st) \<noteq> None" and "\<not> unsets_cache source (fst st) c"
  shows "cache (fst (CachedSource_call source c st)) \<noteq> None"
proof (cases c)
  case Get_problems
  then show ?thesis
    using get_problems_cache_loaded [of source "fst st" "snd st"]
    by (simp add: CachedSource_call_def)
next
  case (Delete_problem pid)
  obtain xs where xs: "cache (fst st) = Some xs" using assms(1) by blast
  show ?thesis
  proof (cases "impl_delete_problem source pid")
    case (Inl e)
    with Delete_problem assms(1) show ?thesis
      by (simp add: CachedSource_call_def CachedSource_delete_problem_def)
  next
    case (Inr ok)
    show ?thesis
    proof (cases "truthy ok")
      case False
      with Inr Delete_problem assms(1) show ?thesis
        by (simp add: CachedSource_call_def CachedSource_delete_problem_def)
    next
      case True
      with Inr Delete_problem assms(2) xs
      have "pid \<noteq> []" and "pid \<in> problem_id ` set xs"
        by (simp_all add: unsets_cache_def)
      then show ?thesis
        using delete_problem_found_keeps_cache [OF xs, of pid source "snd st"] Delete_problem
        by (simp add: CachedSource_call_def)
    qed
  qed
next
  case (Process_new_problem_id pid)
  with assms(1) show ?thesis
    by (auto simp add: CachedSource_call_def CachedSource_process_new_problem_id_def
        CachedSource_insert_to_cache_def process_new_problem_id_except_def list_contains_ids
        split: prod.splits sum.splits option.splits list.splits)
next
  case (Insert_to_cache p)
  with assms(1) show ?thesis
    by (auto simp add: CachedSource_call_def CachedSource_insert_to_cache_def list_contains_ids
        split: option.splits list.splits)
next
  case (Attach ob)
  with assms(1) show ?thesis
    by (simp add: CachedSource_call_def ProblemSource_attach_def)
next
  case (Detach ob)
  with assms(1) show ?thesis
    by (simp add: CachedSource_call_def ProblemSource_detach_def split: sum.splits)
next
  case (Notify ct p)
  with assms(1) show ?thesis
    by (simp add: CachedSource_call_def)
next
  case Drop_cache
  with assms(2) show ?thesis
    by (simp add: unsets_cache_def)
qed

lemma calls_keep_cache:
  "cache (fst st) \<noteq> None \<Longrightarrow> none_unsets_cache source cs st \<Longrightarrow>
   cache (fst (fold (CachedSource_call source) cs st)) \<noteq> None"
proof (induction cs arbitrary: st)
  case Nil
  then show ?case by simp
next
  case (Cons c cs)
  from Cons.prems have "cache (fst (CachedSource_call source c st)) \<noteq> None"
    by (simp add: call_keeps_cache)
  with Cons.prems show ?case
    by (simp add: Cons.IH)
qed

lemma call_unsets_cache:
  assumes "cache self \<noteq> None" and "unsets_cache source self c"
  shows "cache (fst (CachedSource_call source c (self, tr))) = None"
proof (cases c)
  case (Delete_problem pid)
  with assms show ?thesis
    by (auto simp add: CachedSource_call_def unsets_cache_def CachedSource_delete_problem_def
        delete_problem_except_def list_index_absent split: sum.splits)
next
  case Drop_cache
  then show ?thesis
    by (simp add: CachedSource_call_def CachedSource_drop_cache_def)
qed (use assms(2) in \<open>simp_all add: unsets_cache_def\<close>)

text \<open>
  C1, as the code has it. After a call of \<^verbatim>\<open>get_problems\<close> the cache is a sequence,
  never \<^verbatim>\<open>None\<close>. A cache that is a sequence stays one through every sequence of
  calls of the source's methods in which no call is \<^verbatim>\<open>drop_cache\<close> and no call is
  a \<^verbatim>\<open>delete_problem\<close> that the provider accepts and that does not find the id in
  the cache; each of these two calls makes the cache \<^verbatim>\<open>None\<close>. While the cache is a
  sequence that is not empty, a call of \<^verbatim>\<open>get_problems\<close> returns that sequence and
  changes nothing: the source stays as it is and no call goes out, so
  \<^verbatim>\<open>impl_get_problems\<close> is not invoked. An empty cache is not kept: like an unloaded
  one it makes the next call invoke \<^verbatim>\<open>impl_get_problems\<close> again, and when that
  returns ids whose construction succeeds or raises one of the two handled
  exceptions, the call returns, and stores as the cache, exactly the problems
  constructed for these ids, in their order.
\<close>

theorem get_problems_cached:
  "cache (fst (snd (CachedSource_get_problems source self tr))) \<noteq> None
   \<and> (cache (fst st) \<noteq> None \<and> none_unsets_cache source calls st \<longrightarrow>
        cache (fst (fold (CachedSource_call source) calls st)) \<noteq> None)
   \<and> (cache self \<noteq> None \<and> unsets_cache source self unsetting \<longrightarrow>
        cache (fst (CachedSource_call source unsetting (self, tr))) = None)
   \<and> (cache self = Some (c # cs) \<longrightarrow>
        CachedSource_get_problems source self tr = (Inr (c # cs), self, tr))
   \<and> (cache self = None \<or> cache self = Some [] \<longrightarrow>
        (\<exists>more. snd (snd (CachedSource_get_problems source self tr))
                   = tr @ ImplGetProblems # more))
   \<and> ((cache self = None \<or> cache self = Some [])
        \<and> impl_get_problems source = Inr ids \<and> list_all (constructible source) ids \<longrightarrow>
        CachedSource_get_problems source self tr =
          (Inr (concat (map (constructed source) ids)),
           self\<lparr>cache := Some (concat (map (constructed source) ids))\<rparr>,
           tr @ ImplGetProblems # concat (map (construction_calls source) ids)))
   \<and> cache (fst (CachedSource_drop_cache self tr)) = None"
proof (intro conjI impI)
  show "cache (fst (snd (CachedSource_get_problems source self tr))) \<noteq> None"
    by (rule get_problems_cache_loaded)
next
  assume "cache (fst st) \<noteq> None \<and> none_unsets_cache source calls st"
  then show "cache (fst (fold (CachedSource_call source) calls st)) \<noteq> None"
    by (simp add: calls_keep_cache)
next
  assume "cache self \<noteq> None \<and> unsets_cache source self unsetting"
  then show "cache (fst (CachedSource_call source unsetting (self, tr))) = None"
    by (simp add: call_unsets_cache)
next
  assume "cache self = Some (c # cs)"
  then show "CachedSource_get_problems source self tr = (Inr (c # cs), self, tr)"
    by (simp add: CachedSource_get_problems_def)
next
  assume "cache self = None \<or> cache self = Some []"
  then show "\<exists>more. snd (snd (CachedSource_get_problems source self tr))
                   = tr @ ImplGetProblems # more"
    by (rule get_problems_asks_provider)
next
  assume "(cache self = None \<or> cache self = Some [])
        \<and> impl_get_problems source = Inr ids \<and> list_all (constructible source) ids"
  then show "CachedSource_get_problems source self tr =
          (Inr (concat (map (constructed source) ids)),
           self\<lparr>cache := Some (concat (map (constructed source) ids))\<rparr>,
           tr @ ImplGetProblems # concat (map (construction_calls source) ids))"
    by (simp add: get_problems_repopulates)
next
  show "cache (fst (CachedSource_drop_cache self tr)) = None"
    by (simp add: CachedSource_drop_cache_def)
qed

text \<open>
  At a provider that lists \<^verbatim>\<open>a\<close> and \<^verbatim>\<open>invalid\<close>: a cache holding \<^verbatim>\<open>a\<close> is
  returned as it is; it is still a sequence after a new id, the deletion of \<^verbatim>\<open>a\<close>
  and another \<^verbatim>\<open>get_problems\<close>; \<^verbatim>\<open>drop_cache\<close> unsets it; and an empty cache is
  rebuilt from the listing, \<^verbatim>\<open>invalid\<close> left out with a warning.
\<close>

theorem get_problems_cached_witness:
  "CachedSource_get_problems (example_provider\<lparr>impl_get_problems := Inr [''a'', ''invalid'']\<rparr>)
       \<lparr>observers = [7], cache = Some [example_problem ''a'']\<rparr> [ImplGetProblems]
     = (Inr [example_problem ''a''],
        \<lparr>observers = [7], cache = Some [example_problem ''a'']\<rparr>, [ImplGetProblems])
   \<and> cache (fst (fold
        (CachedSource_call (example_provider\<lparr>impl_get_problems := Inr [''a'', ''invalid'']\<rparr>))
        [Process_new_problem_id ''b'', Delete_problem ''a'', Get_problems]
        (\<lparr>observers = [7], cache = Some [example_problem ''a'']\<rparr>, []))) \<noteq> None
   \<and> cache (fst (CachedSource_call
        (example_provider\<lparr>impl_get_problems := Inr [''a'', ''invalid'']\<rparr>) Drop_cache
        (\<lparr>observers = [7], cache = Some [example_problem ''a'']\<rparr>, []))) = None
   \<and> (\<exists>more. snd (snd (CachedSource_get_problems
                          (example_provider\<lparr>impl_get_problems := Inr [''a'', ''invalid'']\<rparr>)
                          \<lparr>observers = [7], cache = None\<rparr> []))
                = [] @ ImplGetProblems # more)
   \<and> CachedSource_get_problems (example_provider\<lparr>impl_get_problems := Inr [''a'', ''invalid'']\<rparr>)
       \<lparr>observers = [7], cache = Some []\<rparr> []
     = (Inr [example_problem ''a''],
        \<lparr>observers = [7], cache = Some [example_problem ''a'']\<rparr>,
        [ImplGetProblems,
         GetItems ''a'' [''component'', ''executable'', ''time'', ''reason''],
         GetItems ''invalid'' [''component'', ''executable'', ''time'', ''reason''],
         Log WARNING])"
proof -
  let ?P = "example_provider\<lparr>impl_get_problems := Inr [''a'', ''invalid'']\<rparr>"
  have quiet: "none_unsets_cache ?P
      [Process_new_problem_id ''b'', Delete_problem ''a'', Get_problems]
      (\<lparr>observers = [7], cache = Some [example_problem ''a'']\<rparr>, [])"
    by (simp add: unsets_cache_def CachedSource_call_def
        CachedSource_process_new_problem_id_def CachedSource_create_new_problem_def
        Problem_init_def CachedSource_insert_to_cache_def Problem_eq_def
        ProblemSource_notify_def)
  have listed: "list_all (constructible ?P) [''a'', ''invalid'']"
    by (simp add: constructible_def CachedSource_create_new_problem_def Problem_init_def)
  have built: "concat (map (constructed ?P) [''a'', ''invalid'']) = [example_problem ''a'']"
    by (simp add: constructed_def CachedSource_create_new_problem_def Problem_init_def)
  have calls: "concat (map (construction_calls ?P) [''a'', ''invalid''])
      = [GetItems ''a'' [''component'', ''executable'', ''time'', ''reason''],
         GetItems ''invalid'' [''component'', ''executable'', ''time'', ''reason''],
         Log WARNING]"
    by (simp add: construction_calls_def CachedSource_create_new_problem_def Problem_init_def)
  show ?thesis
    using get_problems_cached
      [of ?P "\<lparr>observers = [7], cache = Some [example_problem ''a'']\<rparr>" "[ImplGetProblems]"
          "(\<lparr>observers = [7], cache = Some [example_problem ''a'']\<rparr>, [])"
          "[Process_new_problem_id ''b'', Delete_problem ''a'', Get_problems]"
          Drop_cache "example_problem ''a''" "[]" "[]"]
      get_problems_cached
      [of ?P "\<lparr>observers = [7], cache = Some [example_problem ''a'']\<rparr>" "[]"
          "(\<lparr>observers = [7], cache = Some [example_problem ''a'']\<rparr>, [])"
          "[]" Drop_cache "example_problem ''a''" "[]" "[]"]
      get_problems_cached
      [of ?P "\<lparr>observers = [7], cache = None\<rparr>" "[]"
          "(\<lparr>observers = [7], cache = Some [example_problem ''a'']\<rparr>, [])"
          "[]" Drop_cache "example_problem ''a''" "[]" "[''a'', ''invalid'']"]
      get_problems_cached
      [of ?P "\<lparr>observers = [7], cache = Some []\<rparr>" "[]"
          "(\<lparr>observers = [7], cache = Some [example_problem ''a'']\<rparr>, [])"
          "[]" Drop_cache "example_problem ''a''" "[]" "[''a'', ''invalid'']"]
      quiet listed built calls
    by (simp add: unsets_cache_def)
qed

text \<open>
  The claim fails where it insists on the empty cache: the provider lists no problem,
  the first call leaves the cache empty, and the second call invokes
  \<^verbatim>\<open>impl_get_problems\<close> a second time. It fails too in that only \<^verbatim>\<open>drop_cache\<close>
  would unset the cache: after \<^verbatim>\<open>get_problems\<close> has loaded \<^verbatim>\<open>a\<close>, the accepted
  deletion of \<^verbatim>\<open>b\<close>, which is not in the cache, leaves the cache \<^verbatim>\<open>None\<close>.
\<close>

theorem get_problems_empty_cache_counterexample:
  "CachedSource_get_problems example_provider \<lparr>observers = [], cache = None\<rparr> []
     = (Inr [], \<lparr>observers = [], cache = Some []\<rparr>, [ImplGetProblems])
   \<and> CachedSource_get_problems example_provider \<lparr>observers = [], cache = Some []\<rparr>
       [ImplGetProblems]
     = (Inr [], \<lparr>observers = [], cache = Some []\<rparr>, [ImplGetProblems, ImplGetProblems])
   \<and> CachedSource_get_problems (example_provider\<lparr>impl_get_problems := Inr [''a'']\<rparr>)
       \<lparr>observers = [], cache = None\<rparr> []
     = (Inr [example_problem ''a''], \<lparr>observers = [], cache = Some [example_problem ''a'']\<rparr>,
        [ImplGetProblems, GetItems ''a'' [''component'', ''executable'', ''time'', ''reason'']])
   \<and> CachedSource_delete_problem (example_provider\<lparr>impl_get_problems := Inr [''a'']\<rparr>) ''b''
       \<lparr>observers = [], cache = Some [example_problem ''a'']\<rparr> []
     = (Inr (), \<lparr>observers = [], cache = None\<rparr>,
        [ImplDeleteProblem ''b'', Log WARNING, Log DEBUG])"
  by (simp add: CachedSource_get_problems_def CachedSource_create_new_problem_def
      Problem_init_def CachedSource_delete_problem_def delete_problem_except_def
      ProblemSource_notify_def Problem_eq_def)

subsection \<open>Inserting into the cache\<close>

text \<open>
  C7, as the code has it. On a cache that is a sequence and not empty,
  \<^verbatim>\<open>_insert_to_cache\<close> raises \<^verbatim>\<open>InvalidProblem\<close> and leaves the source as it was when
  the problem's id occurs in the cache, and appends the problem otherwise. On an
  empty or unloaded cache it does nothing and raises nothing. In every case a cache
  without two entries of one id stays so.
\<close>

theorem insert_to_cache_cases:
  "(cache self = Some (c # cs) \<and> problem_id problem \<in> problem_id ` set (c # cs) \<longrightarrow>
      CachedSource_insert_to_cache problem self = (Inl InvalidProblem, self))
   \<and> (cache self = Some (c # cs) \<and> problem_id problem \<notin> problem_id ` set (c # cs) \<longrightarrow>
      CachedSource_insert_to_cache problem self
        = (Inr (), self\<lparr>cache := Some (c # cs @ [problem])\<rparr>))
   \<and> (cache self = None \<or> cache self = Some [] \<longrightarrow>
      CachedSource_insert_to_cache problem self = (Inr (), self))
   \<and> (cache self = Some xs \<and> distinct (map problem_id xs)
        \<and> cache (snd (CachedSource_insert_to_cache problem self)) = Some ys \<longrightarrow>
      distinct (map problem_id ys))"
  by (cases xs)
     (auto simp add: CachedSource_insert_to_cache_def list_contains_ids split: if_splits)

theorem insert_to_cache_cases_witness:
  "CachedSource_insert_to_cache ((example_problem ''a'')\<lparr>deleted := True\<rparr>)
       \<lparr>observers = [], cache = Some [example_problem ''b'', example_problem ''a'']\<rparr>
     = (Inl InvalidProblem,
        \<lparr>observers = [], cache = Some [example_problem ''b'', example_problem ''a'']\<rparr>)
   \<and> CachedSource_insert_to_cache (example_problem ''c'')
       \<lparr>observers = [], cache = Some [example_problem ''b'', example_problem ''a'']\<rparr>
     = (Inr (),
        \<lparr>observers = [],
          cache = Some [example_problem ''b'', example_problem ''a'', example_problem ''c'']\<rparr>)
   \<and> CachedSource_insert_to_cache (example_problem ''c'') \<lparr>observers = [], cache = None\<rparr>
     = (Inr (), \<lparr>observers = [], cache = None\<rparr>)
   \<and> distinct (map problem_id
        [example_problem ''b'', example_problem ''a'', example_problem ''c''])"
proof -
  have appended: "CachedSource_insert_to_cache (example_problem ''c'')
       \<lparr>observers = [], cache = Some [example_problem ''b'', example_problem ''a'']\<rparr>
     = (Inr (),
        \<lparr>observers = [],
          cache = Some [example_problem ''b'', example_problem ''a'', example_problem ''c'']\<rparr>)"
    using insert_to_cache_cases
      [of "\<lparr>observers = [], cache = Some [example_problem ''b'', example_problem ''a'']\<rparr>"
          "example_problem ''b''" "[example_problem ''a'']" "example_problem ''c''" "[]" "[]"]
    by simp
  show ?thesis
    using insert_to_cache_cases
      [of "\<lparr>observers = [], cache = Some [example_problem ''b'', example_problem ''a'']\<rparr>"
          "example_problem ''b''" "[example_problem ''a'']"
          "(example_problem ''a'')\<lparr>deleted := True\<rparr>" "[]" "[]"]
      insert_to_cache_cases
      [of "\<lparr>observers = [], cache = None\<rparr>"
          "example_problem ''b''" "[]" "example_problem ''c''" "[]" "[]"]
      insert_to_cache_cases
      [of "\<lparr>observers = [], cache = Some [example_problem ''b'', example_problem ''a'']\<rparr>"
          "example_problem ''b''" "[example_problem ''a'']" "example_problem ''c''"
          "[example_problem ''b'', example_problem ''a'']"
          "[example_problem ''b'', example_problem ''a'', example_problem ''c'']"]
      appended
    by simp
qed

text \<open>
  The claim fails on a loaded cache that is empty: the problem is not appended.
\<close>

theorem insert_to_cache_empty_counterexample:
  "CachedSource_insert_to_cache (example_problem ''a'') \<lparr>observers = [], cache = Some []\<rparr>
     = (Inr (), \<lparr>observers = [], cache = Some []\<rparr>)"
  by (simp add: CachedSource_insert_to_cache_def)

subsection \<open>Deleting through the source\<close>

text \<open>
  C6. When the provider's \<^verbatim>\<open>impl_delete_problem\<close> returns a false value,
  \<^verbatim>\<open>delete_problem\<close> returns with the source, its cache included, as it was; the
  only call that went out is the one to the provider, so no observer is notified.
\<close>

theorem delete_problem_refused:
  "impl_delete_problem source pid = Inr ok \<and> \<not> truthy ok \<longrightarrow>
   CachedSource_delete_problem source pid self tr = (Inr (), self, tr @ [ImplDeleteProblem pid])"
  by (simp add: CachedSource_delete_problem_def)

theorem delete_problem_refused_witness:
  "impl_delete_problem example_provider ''kept'' = Inr (PyBool False)
   \<and> CachedSource_delete_problem example_provider ''kept''
       \<lparr>observers = [3, 4], cache = Some [example_problem ''kept'']\<rparr> []
     = (Inr (), \<lparr>observers = [3, 4], cache = Some [example_problem ''kept'']\<rparr>,
        [ImplDeleteProblem ''kept''])"
  using delete_problem_refused
    [of example_provider "''kept''" "PyBool False"
        "\<lparr>observers = [3, 4], cache = Some [example_problem ''kept'']\<rparr>" "[]"]
  by simp

text \<open>
  C8, as the code has it. The provider accepts the deletion and the cache is a
  sequence. When the id is not among the ids of the cache, or is the empty string,
  the cache is reset to \<^verbatim>\<open>None\<close>, a warning is logged, and one notification without
  change type and without problem goes to every observer. When the id is not empty and
  occurs in the cache, the first entry with that id is removed and one
  \<^verbatim>\<open>DELETED_PROBLEM\<close> notification carrying that entry goes to every observer.
\<close>

theorem delete_problem_accepted:
  "impl_delete_problem source pid = Inr ok \<and> truthy ok \<and> cache self = Some c \<longrightarrow>
     (pid \<notin> problem_id ` set c \<or> pid = [] \<longrightarrow>
        CachedSource_delete_problem source pid self tr =
          (Inr (), self\<lparr>cache := None\<rparr>,
           tr @ [ImplDeleteProblem pid, Log WARNING, Log DEBUG]
              @ map (\<lambda>observer. Changed observer None None) (observers self)))
   \<and> (pid \<noteq> [] \<and> c = pre @ p # post \<and> problem_id p = pid \<and> pid \<notin> problem_id ` set pre \<longrightarrow>
        CachedSource_delete_problem source pid self tr =
          (Inr (), self\<lparr>cache := Some (pre @ post)\<rparr>,
           tr @ [ImplDeleteProblem pid, Log DEBUG]
              @ map (\<lambda>observer. Changed observer (Some DELETED_PROBLEM) (Some p))
                  (observers self)))"
  by (auto simp add: CachedSource_delete_problem_def delete_problem_except_def
      ProblemSource_notify_def list_index_absent list_index_present list_remove_present)

theorem delete_problem_accepted_witness:
  "CachedSource_delete_problem example_provider ''c''
       \<lparr>observers = [3, 4], cache = Some [example_problem ''a'', example_problem ''b'']\<rparr> []
     = (Inr (), \<lparr>observers = [3, 4], cache = None\<rparr>,
        [ImplDeleteProblem ''c'', Log WARNING, Log DEBUG,
         Changed 3 None None, Changed 4 None None])
   \<and> CachedSource_delete_problem example_provider ''b''
       \<lparr>observers = [3, 4], cache = Some [example_problem ''a'', example_problem ''b'']\<rparr> []
     = (Inr (), \<lparr>observers = [3, 4], cache = Some [example_problem ''a'']\<rparr>,
        [ImplDeleteProblem ''b'', Log DEBUG,
         Changed 3 (Some DELETED_PROBLEM) (Some (example_problem ''b'')),
         Changed 4 (Some DELETED_PROBLEM) (Some (example_problem ''b''))])"
  using delete_problem_accepted
    [of example_provider "''c''" "PyBool True"
        "\<lparr>observers = [3, 4], cache = Some [example_problem ''a'', example_problem ''b'']\<rparr>"
        "[example_problem ''a'', example_problem ''b'']" "[]" "[]" "example_problem ''a''" "[]"]
    delete_problem_accepted
    [of example_provider "''b''" "PyBool True"
        "\<lparr>observers = [3, 4], cache = Some [example_problem ''a'', example_problem ''b'']\<rparr>"
        "[example_problem ''a'', example_problem ''b'']" "[]"
        "[example_problem ''a'']" "example_problem ''b''" "[]"]
  by simp

text \<open>
  The claim's second half fails for the empty id: the cache holds a problem with that
  id, yet nothing is found, the whole cache is dropped and the notification is the
  general one.
\<close>

theorem delete_problem_empty_id_counterexample:
  "[] \<in> problem_id ` set [example_problem [], example_problem ''a'']
   \<and> CachedSource_delete_problem example_provider []
       \<lparr>observers = [3], cache = Some [example_problem [], example_problem ''a'']\<rparr> []
     = (Inr (), \<lparr>observers = [3], cache = None\<rparr>,
        [ImplDeleteProblem [], Log WARNING, Log DEBUG, Changed 3 None None])"
  by (simp add: CachedSource_delete_problem_def delete_problem_except_def
      ProblemSource_notify_def Problem_eq_def)

subsection \<open>New problem ids\<close>

text \<open>
  C4, as the code has it. \<^verbatim>\<open>process_new_problem_id\<close> constructs a problem for the
  id. When construction succeeds: on a cache that is a non-empty sequence without the
  id, the problem is appended and one \<^verbatim>\<open>NEW_PROBLEM\<close> notification carrying it goes
  to every observer; on an unloaded or empty cache the same notification goes out and
  the cache stays as it is; when the id is in the cache already, the source stays as
  it is, a warning is logged, nothing is raised and no observer is notified. When
  construction raises \<^verbatim>\<open>InvalidProblem\<close> or \<^verbatim>\<open>UnavailableSource\<close>, a warning is
  logged, nothing is raised, the source stays as it is and no observer is notified.
\<close>

theorem process_new_problem_id_cases:
  "(get_items source pid [''component'', ''executable'', ''time'', ''reason''] = Inr d
      \<and> cache self = Some (c # cs) \<and> pid \<notin> problem_id ` set (c # cs) \<longrightarrow>
      CachedSource_process_new_problem_id source pid self tr =
        (Inr (),
         self\<lparr>cache := Some (c # cs @
           [\<lparr>problem_id = pid, app = None, submission = None, data = d, deleted = False\<rparr>])\<rparr>,
         tr @ [GetItems pid [''component'', ''executable'', ''time'', ''reason''], Log DEBUG]
            @ map (\<lambda>observer. Changed observer (Some NEW_PROBLEM)
                (Some \<lparr>problem_id = pid, app = None, submission = None, data = d,
                        deleted = False\<rparr>))
              (observers self)))
   \<and> (get_items source pid [''component'', ''executable'', ''time'', ''reason''] = Inr d
      \<and> (cache self = None \<or> cache self = Some []) \<longrightarrow>
      CachedSource_process_new_problem_id source pid self tr =
        (Inr (), self,
         tr @ [GetItems pid [''component'', ''executable'', ''time'', ''reason''], Log DEBUG]
            @ map (\<lambda>observer. Changed observer (Some NEW_PROBLEM)
                (Some \<lparr>problem_id = pid, app = None, submission = None, data = d,
                        deleted = False\<rparr>))
              (observers self)))
   \<and> (get_items source pid [''component'', ''executable'', ''time'', ''reason''] = Inr d
      \<and> cache self = Some xs \<and> pid \<in> problem_id ` set xs \<longrightarrow>
      CachedSource_process_new_problem_id source pid self tr =
        (Inr (), self,
         tr @ [GetItems pid [''component'', ''executable'', ''time'', ''reason''], Log WARNING]))
   \<and> (get_items source pid [''component'', ''executable'', ''time'', ''reason''] = Inl e
      \<and> (e = InvalidProblem \<or> e = UnavailableSource) \<longrightarrow>
      CachedSource_process_new_problem_id source pid self tr =
        (Inr (), self,
         tr @ [GetItems pid [''component'', ''executable'', ''time'', ''reason''], Log WARNING]))"
  by (cases xs)
     (auto simp add: CachedSource_process_new_problem_id_def CachedSource_create_new_problem_def
        Problem_init_def CachedSource_insert_to_cache_def list_contains_ids
        process_new_problem_id_except_def ProblemSource_notify_def)

theorem process_new_problem_id_cases_witness:
  "CachedSource_process_new_problem_id example_provider ''b''
       \<lparr>observers = [3], cache = Some [example_problem ''a'']\<rparr> []
     = (Inr (), \<lparr>observers = [3], cache = Some [example_problem ''a'', example_problem ''b'']\<rparr>,
        [GetItems ''b'' [''component'', ''executable'', ''time'', ''reason''], Log DEBUG,
         Changed 3 (Some NEW_PROBLEM) (Some (example_problem ''b''))])
   \<and> CachedSource_process_new_problem_id example_provider ''b''
       \<lparr>observers = [3], cache = Some []\<rparr> []
     = (Inr (), \<lparr>observers = [3], cache = Some []\<rparr>,
        [GetItems ''b'' [''component'', ''executable'', ''time'', ''reason''], Log DEBUG,
         Changed 3 (Some NEW_PROBLEM) (Some (example_problem ''b''))])
   \<and> CachedSource_process_new_problem_id example_provider ''a''
       \<lparr>observers = [3], cache = Some [example_problem ''a'']\<rparr> []
     = (Inr (), \<lparr>observers = [3], cache = Some [example_problem ''a'']\<rparr>,
        [GetItems ''a'' [''component'', ''executable'', ''time'', ''reason''], Log WARNING])
   \<and> CachedSource_process_new_problem_id example_provider ''invalid''
       \<lparr>observers = [3], cache = Some [example_problem ''a'']\<rparr> []
     = (Inr (), \<lparr>observers = [3], cache = Some [example_problem ''a'']\<rparr>,
        [GetItems ''invalid'' [''component'', ''executable'', ''time'', ''reason''],
         Log WARNING])"
  using process_new_problem_id_cases
    [of example_provider "''b''" "[]" "\<lparr>observers = [3], cache = Some [example_problem ''a'']\<rparr>"
        "example_problem ''a''" "[]" "[]" "[]" InvalidProblem]
    process_new_problem_id_cases
    [of example_provider "''b''" "[]" "\<lparr>observers = [3], cache = Some []\<rparr>"
        "example_problem ''a''" "[]" "[]" "[]" InvalidProblem]
    process_new_problem_id_cases
    [of example_provider "''a''" "[]" "\<lparr>observers = [3], cache = Some [example_problem ''a'']\<rparr>"
        "example_problem ''a''" "[]" "[]" "[example_problem ''a'']" InvalidProblem]
    process_new_problem_id_cases
    [of example_provider "''invalid''" "[]"
        "\<lparr>observers = [3], cache = Some [example_problem ''a'']\<rparr>"
        "example_problem ''a''" "[]" "[]" "[]" InvalidProblem]
  by simp

text \<open>
  The claim fails on an unloaded cache: the problem is constructed and announced, and
  the cache is still \<^verbatim>\<open>None\<close>. It fails too when the id is cached already:
  construction succeeds and no notification goes out.
\<close>

theorem process_new_problem_id_counterexample:
  "CachedSource_process_new_problem_id example_provider ''b''
       \<lparr>observers = [3], cache = None\<rparr> []
     = (Inr (), \<lparr>observers = [3], cache = None\<rparr>,
        [GetItems ''b'' [''component'', ''executable'', ''time'', ''reason''], Log DEBUG,
         Changed 3 (Some NEW_PROBLEM) (Some (example_problem ''b''))])
   \<and> CachedSource_process_new_problem_id example_provider ''a''
       \<lparr>observers = [3], cache = Some [example_problem ''a'']\<rparr> []
     = (Inr (), \<lparr>observers = [3], cache = Some [example_problem ''a'']\<rparr>,
        [GetItems ''a'' [''component'', ''executable'', ''time'', ''reason''], Log WARNING])"
  by (simp add: CachedSource_process_new_problem_id_def CachedSource_create_new_problem_def
      Problem_init_def CachedSource_insert_to_cache_def Problem_eq_def
      process_new_problem_id_except_def ProblemSource_notify_def)

subsection \<open>Deleting a problem\<close>




text \<open>
  On the cache of references \<^verbatim>\<open>delete_problem\<close> does what it does on the cache of
  values that the store shows: the same result, the same calls, and the source that
  the store shows afterwards.
\<close>

lemma refs_index_values:
  "refs_index h c v = list_index (map h c) v"
  by (induction c) (auto split: sum.splits)

lemma refs_remove_values:
  "(case refs_remove h c v of Inl e \<Rightarrow> Inl e | Inr c' \<Rightarrow> Inr (map h c'))
     = list_remove (map h c) v"
  by (induction c) (auto split: sum.splits)

lemma refs_index_in_range:
  "refs_index h c v = Inr i \<Longrightarrow> i < length c"
  by (induction c arbitrary: i) (auto split: sum.splits if_splits)

lemma delete_problem_refs_values:
  "CachedSource_delete_problem source pid (CachedSource_of h self) tr =
     (case CachedSource_delete_problem_refs source pid h self tr of
        (r, self', tr') \<Rightarrow> (r, CachedSource_of h self', tr'))"
proof (cases "cache_refs self")
  case None
  then show ?thesis
    by (simp add: CachedSource_delete_problem_def CachedSource_delete_problem_refs_def
        CachedSource_of_def delete_problem_except_def delete_problem_except_refs_def
        ProblemSource_notify_def split: sum.splits)
next
  case (Some c)
  show ?thesis
  proof (cases "refs_index h c (Plain (PyStr pid))")
    case (Inl e)
    then have li: "list_index (map h c) (Plain (PyStr pid)) = Inl e"
      by (simp add: refs_index_values [symmetric])
    from Some Inl li show ?thesis
      by (simp add: CachedSource_delete_problem_def CachedSource_delete_problem_refs_def
          CachedSource_of_def delete_problem_except_def delete_problem_except_refs_def
          ProblemSource_notify_def split: sum.splits)
  next
    case (Inr i)
    then have i: "i < length c" by (rule refs_index_in_range)
    from Inr have li: "list_index (map h c) (Plain (PyStr pid)) = Inr i"
      by (simp add: refs_index_values [symmetric])
    show ?thesis
    proof (cases "refs_remove h c (Plain (PyStr pid))")
      case (Inl e)
      then have lr: "list_remove (map h c) (Plain (PyStr pid)) = Inl e"
        by (simp add: refs_remove_values [symmetric])
      from Some Inr li Inl lr show ?thesis
        by (simp add: CachedSource_delete_problem_def CachedSource_delete_problem_refs_def
            CachedSource_of_def delete_problem_except_def delete_problem_except_refs_def
            ProblemSource_notify_def split: sum.splits)
    next
      case r: (Inr c')
      then have lr: "list_remove (map h c) (Plain (PyStr pid)) = Inr (map h c')"
        by (simp add: refs_remove_values [symmetric])
      from Some Inr li r lr i show ?thesis
        by (simp add: CachedSource_delete_problem_def CachedSource_delete_problem_refs_def
            CachedSource_of_def ProblemSource_notify_def split: sum.splits)
    qed
  qed
qed






subsection \<open>Dropping the caches of several sources\<close>

text \<open>
  What the \<^verbatim>\<open>drop_cache\<close> of a \<^verbatim>\<open>CachedSource\<close> does: the cache is unset and one
  notification without arguments goes to every observer.
\<close>

lemma CachedSource_drop_cache_notifies_once:
  "CachedSource_drop_cache self tr =
     (self\<lparr>cache := None\<rparr>,
      tr @ [Log DEBUG] @ map (\<lambda>observer. Changed observer None None) (observers self))"
  by (simp add: CachedSource_drop_cache_def ProblemSource_notify_def)

text \<open>While the flag is set, nothing a child sends reaches the observers.\<close>

lemma fold_changed_disabled:
  "disable_notify parent \<Longrightarrow>
   fold (\<lambda>(ct, p). SourceObserver_changed parent ct p) ns tr = tr"
  by (induction ns arbitrary: tr)
     (auto simp add: SourceObserver_changed_def MultipleSources_notify_def)

lemma drop_sources_all_return:
  "disable_notify parent \<Longrightarrow> list_all (\<lambda>s. child_raises s = None) ss \<Longrightarrow>
   drop_sources parent n ss tr = (None, tr @ map DropCache [n ..< n + length ss])"
proof (induction ss arbitrary: n tr)
  case Nil
  show ?case by simp
next
  case (Cons s ss)
  have "drop_sources parent n (s # ss) tr = drop_sources parent (Suc n) ss (tr @ [DropCache n])"
    using Cons.prems by (simp add: Child_drop_cache_def fold_changed_disabled)
  also have "\<dots> = (None, (tr @ [DropCache n]) @ map DropCache [Suc n ..< Suc n + length ss])"
    using Cons.prems by (intro Cons.IH) simp_all
  also have "\<dots> = (None, tr @ map DropCache [n ..< n + length (s # ss)])"
    by (simp add: upt_conv_Cons del: upt_Suc)
  finally show ?case .
qed

lemma drop_sources_raise:
  "disable_notify parent \<Longrightarrow> list_all (\<lambda>s. child_raises s = None) pre \<Longrightarrow>
   child_raises s = Some e \<Longrightarrow>
   drop_sources parent n (pre @ s # post) tr
     = (Some e, tr @ map DropCache [n ..< Suc (n + length pre)])"
proof (induction pre arbitrary: n tr)
  case Nil
  then show ?case by (simp add: Child_drop_cache_def fold_changed_disabled)
next
  case (Cons s' pre)
  have "drop_sources parent n ((s' # pre) @ s # post) tr
      = drop_sources parent (Suc n) (pre @ s # post) (tr @ [DropCache n])"
    using Cons.prems by (simp add: Child_drop_cache_def fold_changed_disabled)
  also have "\<dots> = (Some e, (tr @ [DropCache n])
                        @ map DropCache [Suc n ..< Suc (Suc n + length pre)])"
    using Cons.prems by (intro Cons.IH) simp_all
  also have "\<dots> = (Some e, tr @ map DropCache [n ..< Suc (n + length (s' # pre))])"
    by (simp add: upt_conv_Cons del: upt_Suc)
  finally show ?case .
qed

text \<open>
  C2, as the code has it. When no child raises, \<^verbatim>\<open>drop_cache\<close> calls \<^verbatim>\<open>drop_cache\<close>
  on every child, in order; whatever the children send meanwhile, no call reaches the
  observers of the \<^verbatim>\<open>MultipleSources\<close> during the loop; afterwards the flag is
  clear and exactly one notification, without arguments, goes to every observer. When
  a child raises, the children after it are not called, the flag is clear all the
  same, the exception leaves \<^verbatim>\<open>drop_cache\<close>, and no observer is notified.
\<close>

theorem drop_cache_batches_notifications:
  "(list_all (\<lambda>s. child_raises s = None) (sources self) \<longrightarrow>
      MultipleSources_drop_cache self tr =
        (Inr (), self\<lparr>disable_notify := False\<rparr>,
         tr @ map DropCache [0 ..< length (sources self)] @ [Log DEBUG]
            @ map (\<lambda>observer. Changed observer None None) (observers self)))
   \<and> (sources self = pre @ s # post \<and> list_all (\<lambda>s. child_raises s = None) pre
        \<and> child_raises s = Some e \<longrightarrow>
      MultipleSources_drop_cache self tr =
        (Inl e, self\<lparr>disable_notify := False\<rparr>, tr @ map DropCache [0 ..< Suc (length pre)]))"
  using drop_sources_all_return [of "self\<lparr>disable_notify := True\<rparr>" "sources self" 0 tr]
    drop_sources_raise [of "self\<lparr>disable_notify := True\<rparr>" pre s e 0 post tr]
  by (auto simp add: MultipleSources_drop_cache_def MultipleSources_notify_def
      ProblemSource_notify_def)

theorem drop_cache_batches_notifications_witness:
  "MultipleSources_drop_cache
       \<lparr>observers = [5, 6],
        sources = [\<lparr>child_notifies = [(None, None)], child_raises = None\<rparr>,
                   \<lparr>child_notifies = [(None, None), (Some CHANGED_PROBLEM, None)],
                    child_raises = None\<rparr>],
        disable_notify = False\<rparr> []
     = (Inr (),
        \<lparr>observers = [5, 6],
         sources = [\<lparr>child_notifies = [(None, None)], child_raises = None\<rparr>,
                    \<lparr>child_notifies = [(None, None), (Some CHANGED_PROBLEM, None)],
                     child_raises = None\<rparr>],
         disable_notify = False\<rparr>,
        [DropCache 0, DropCache 1, Log DEBUG, Changed 5 None None, Changed 6 None None])
   \<and> MultipleSources_drop_cache
       \<lparr>observers = [5, 6],
        sources = [\<lparr>child_notifies = [(None, None)], child_raises = None\<rparr>,
                   \<lparr>child_notifies = [(None, None)], child_raises = Some ProviderError\<rparr>,
                   \<lparr>child_notifies = [(None, None)], child_raises = None\<rparr>],
        disable_notify = False\<rparr> []
     = (Inl ProviderError,
        \<lparr>observers = [5, 6],
         sources = [\<lparr>child_notifies = [(None, None)], child_raises = None\<rparr>,
                    \<lparr>child_notifies = [(None, None)], child_raises = Some ProviderError\<rparr>,
                    \<lparr>child_notifies = [(None, None)], child_raises = None\<rparr>],
         disable_notify = False\<rparr>,
        [DropCache 0, DropCache 1])"
  using drop_cache_batches_notifications
    [of "\<lparr>observers = [5, 6],
         sources = [\<lparr>child_notifies = [(None, None)], child_raises = None\<rparr>,
                    \<lparr>child_notifies = [(None, None), (Some CHANGED_PROBLEM, None)],
                     child_raises = None\<rparr>],
         disable_notify = False\<rparr>"
        "[]" "[]" "\<lparr>child_notifies = [], child_raises = None\<rparr>" "[]" ProviderError]
    drop_cache_batches_notifications
    [of "\<lparr>observers = [5, 6],
         sources = [\<lparr>child_notifies = [(None, None)], child_raises = None\<rparr>,
                    \<lparr>child_notifies = [(None, None)], child_raises = Some ProviderError\<rparr>,
                    \<lparr>child_notifies = [(None, None)], child_raises = None\<rparr>],
         disable_notify = False\<rparr>"
        "[]" "[\<lparr>child_notifies = [(None, None)], child_raises = None\<rparr>]"
        "\<lparr>child_notifies = [(None, None)], child_raises = Some ProviderError\<rparr>"
        "[\<lparr>child_notifies = [(None, None)], child_raises = None\<rparr>]" ProviderError]
  by (simp add: upt_conv_Cons del: upt_Suc)

text \<open>
  The claim taken for every instance fails when a child raises: of two children the
  first raises, the second is never called, and the attached observer gets no
  notification at all.
\<close>

theorem drop_cache_raising_child_counterexample:
  "MultipleSources_drop_cache
       \<lparr>observers = [5],
        sources = [\<lparr>child_notifies = [(None, None)], child_raises = Some ProviderError\<rparr>,
                   \<lparr>child_notifies = [(None, None)], child_raises = None\<rparr>],
        disable_notify = False\<rparr> []
     = (Inl ProviderError,
        \<lparr>observers = [5],
         sources = [\<lparr>child_notifies = [(None, None)], child_raises = Some ProviderError\<rparr>,
                    \<lparr>child_notifies = [(None, None)], child_raises = None\<rparr>],
         disable_notify = False\<rparr>,
        [DropCache 0])"
  by (simp add: MultipleSources_drop_cache_def Child_drop_cache_def SourceObserver_changed_def
      MultipleSources_notify_def)

end
